theory Spec2Isabelle
  imports Complex_Main "HOL-Library.Log_Nat"
begin

section \<open>Numbers\<close>

text \<open>
  The program computes on JavaScript numbers, which are binary64 floating-point values.
  A finite number is modelled by the rational it denotes (\<^typ>\<open>rat\<close>); comparing two
  numbers is exact.

  The divisions and multiplications of \<open>_addSegmentInfos\<close> and \<open>_append\<close> are rounded as
  IEEE 754 prescribes: the exact quotient or product is replaced by the nearest binary64
  value, ties going to the value with an even significand (\<open>round64\<close>). A binary64 value
  is \<open>m * 2^e\<close> with \<open>|m| <= 2^53\<close> and \<open>e >= -1074\<close>; a result that rounds to a magnitude
  of \<open>2^1024\<close> or more is infinite. A division by zero and an overflow give the value
  \<open>NonFinite\<close> (one of \<open>Infinity\<close>, \<open>-Infinity\<close>, \<open>NaN\<close>, not told apart); the sign of a
  zero is not kept.

  The text buffer manager only compares times, but for the difference in
  \<open>areNearlyEqual\<close>; that difference and the arithmetic of the template index are taken
  exactly, and \<open>0.2\<close> is the rational \<open>1/5\<close>.
\<close>

datatype jsnum = Num rat | NonFinite

definition pow2 :: "int \<Rightarrow> rat" where
  "pow2 e = (if e \<ge> 0 then 2 ^ nat e else 1 / 2 ^ nat (- e))"

text \<open>For \<open>x > 0\<close>, the integer \<open>k\<close> with \<open>2^k <= x < 2^(k+1)\<close>.\<close>

definition floorLog2 :: "rat \<Rightarrow> int" where
  "floorLog2 x =
     (case quotient_of x of
        (p, q) \<Rightarrow>
          (let k = bitlen p - bitlen q
           in if pow2 k \<le> x then k else k - 1))"

text \<open>The nearest integer to \<open>y >= 0\<close>, a tie going to the even one.\<close>

definition roundHalfEven :: "rat \<Rightarrow> int" where
  "roundHalfEven y =
     (let f = \<lfloor>y\<rfloor>; r = y - of_int f
      in if r < 1 / 2 then f
         else if r > 1 / 2 then f + 1
         else if even f then f else f + 1)"

definition round64 :: "rat \<Rightarrow> jsnum" where
  "round64 x =
     (if x = 0 then Num 0
      else
        (let a = \<bar>x\<bar>;
             e = max (floorLog2 a - 52) (- 1074);
             m = roundHalfEven (a / pow2 e)
         in if e > 971 \<or> (e = 971 \<and> m \<ge> 2 ^ 53) then NonFinite
            else Num (sgn x * (of_int m * pow2 e))))"

definition js_div :: "rat \<Rightarrow> rat \<Rightarrow> jsnum" where
  "js_div a b = (if b = 0 then NonFinite else round64 (a / b))"

fun js_mul :: "jsnum \<Rightarrow> rat \<Rightarrow> jsnum" where
  "js_mul (Num a) b = round64 (a * b)"
| "js_mul NonFinite b = NonFinite"


section \<open>The text buffer manager\<close>

subsection \<open>Data\<close>

text \<open>
  A cue is \<open>{start, end, element}\<close>. The program never writes to a cue object and never
  copies one, so a cue is a value; its payload type \<open>'e\<close> is arbitrary and may carry
  the identity of the cue object, so that equal cues of the model are the same object.

  A cue array is mutable and shared: \<open>insert\<close> stores the very array it is given in the
  group it creates, and later insertions splice stored arrays in place. Arrays therefore
  live in a store indexed by addresses, and a group holds the address of its array.
  A group object \<open>{start, end, cues}\<close> is created by \<open>insert\<close> and held by the buffer
  at one position only, so groups are values.
\<close>

record 'e cue =
  cue_start :: rat
  cue_end :: rat
  element :: 'e

record cuesInfos =
  infos_start :: rat
  infos_end :: rat
  cues :: nat

type_synonym 'e arrays = "nat \<Rightarrow> 'e cue list"

record 'e textBufferManager =
  arrays :: "'e arrays"
  cuesBuffer :: "cuesInfos list"

definition MAX_DELTA_BUFFER_TIME :: rat where
  "MAX_DELTA_BUFFER_TIME = 1 / 5"

definition areNearlyEqual :: "rat \<Rightarrow> rat \<Rightarrow> bool" where
  "areNearlyEqual a b = (\<bar>a - b\<bar> \<le> MAX_DELTA_BUFFER_TIME)"

text \<open>The constructor: an empty buffer (the store of arrays is the caller's).\<close>

definition newTextBufferManager :: "'e arrays \<Rightarrow> 'e textBufferManager" where
  "newTextBufferManager h = \<lparr>arrays = h, cuesBuffer = []\<rparr>"


subsection \<open>Helpers on cue arrays\<close>

text \<open>\<open>getCueInCues\<close>: the first cue that ends after the time decides.\<close>

fun getCueInCues :: "rat \<Rightarrow> 'e cue list \<Rightarrow> 'e cue option" where
  "getCueInCues currentTime [] = None"
| "getCueInCues currentTime (cue # rest) =
     (if currentTime < cue_end cue
      then (if currentTime \<ge> cue_start cue then Some cue else None)
      else getCueInCues currentTime rest)"

text \<open>
  \<open>removeInCuesAfter\<close>: at the first index \<open>i\<close> with \<open>time > cue.start\<close> the call
  \<open>cues.splice(i, cues.length - i)\<close> removes everything from \<open>i\<close> on; the cues before
  \<open>i\<close> stay. Without such an index the array is unchanged.
\<close>

fun removeInCuesAfter_loop :: "'e cue list \<Rightarrow> rat \<Rightarrow> 'e cue list" where
  "removeInCuesAfter_loop [] time = []"
| "removeInCuesAfter_loop (cue # rest) time =
     (if time > cue_start cue then [] else cue # removeInCuesAfter_loop rest time)"

definition removeInCuesAfter :: "nat \<Rightarrow> rat \<Rightarrow> 'e arrays \<Rightarrow> 'e arrays" where
  "removeInCuesAfter a time h = h(a := removeInCuesAfter_loop (h a) time)"

text \<open>
  \<open>removeInCuesBefore\<close>: \<open>i\<close> runs from \<open>cues.length - 1\<close> down to \<open>0\<close>; at the first
  \<open>i\<close> with \<open>time > cues[i].start\<close> the call \<open>cues.splice(0, i)\<close> removes the first \<open>i\<close>
  cues. The first argument of the loop function is \<open>i + 1\<close>.
\<close>

fun removeInCuesBefore_loop :: "nat \<Rightarrow> 'e cue list \<Rightarrow> rat \<Rightarrow> 'e cue list" where
  "removeInCuesBefore_loop 0 cs time = cs"
| "removeInCuesBefore_loop (Suc i) cs time =
     (if time > cue_start (cs ! i) then drop i cs
      else removeInCuesBefore_loop i cs time)"

text \<open>
  \<open>removeInCuesBefore\<close> is called with a cue array at two places of \<open>insert\<close> and with
  the group object itself at a third (\<open>removeInCuesBefore(cuesInfos, end)\<close>). A group
  object has no \<open>length\<close>: \<open>cues.length - 1\<close> is \<open>NaN\<close>, the test \<open>i >= 0\<close> fails at
  once, and the call returns without touching anything.
\<close>

datatype argument = CuesArray nat | InfosObject cuesInfos

fun removeInCuesBefore :: "argument \<Rightarrow> rat \<Rightarrow> 'e arrays \<Rightarrow> 'e arrays" where
  "removeInCuesBefore (CuesArray a) time h =
     h(a := removeInCuesBefore_loop (length (h a)) (h a) time)"
| "removeInCuesBefore (InfosObject g) time h = h"


subsection \<open>get\<close>

fun get_loop :: "rat \<Rightarrow> 'e arrays \<Rightarrow> cuesInfos list \<Rightarrow> 'e cue option" where
  "get_loop time h [] = None"
| "get_loop time h (cuesInfos # rest) =
     (if time < infos_end cuesInfos
      then (if time \<ge> infos_start cuesInfos
            then getCueInCues time (h (cues cuesInfos)) else None)
      else get_loop time h rest)"

definition get :: "rat \<Rightarrow> 'e textBufferManager \<Rightarrow> 'e cue option" where
  "get time m = get_loop time (arrays m) (cuesBuffer m)"


subsection \<open>insert\<close>

text \<open>
  The \<open>do ... while\<close> of \<open>insert\<close> first removes the current group and then every
  following group that ends before \<open>end\<close>; \<open>dropCovered\<close> is the part after the
  first removal, on the groups that follow the current one.
\<close>

fun dropCovered :: "rat \<Rightarrow> cuesInfos list \<Rightarrow> cuesInfos list" where
  "dropCovered end' [] = []"
| "dropCovered end' (cuesInfos # rest) =
     (if end' > infos_end cuesInfos then dropCovered end' rest else cuesInfos # rest)"

text \<open>
  The body of the loop of \<open>insert\<close> at the first group \<open>cuesInfos\<close> with
  \<open>start < cuesInfos.end\<close>; \<open>rest\<close> are the groups after it, the groups before it are
  not touched. \<open>cuesBuffer[i] = x\<close> puts \<open>x\<close> in the place of the current group,
  \<open>cuesBuffer.splice(i, 0, x)\<close> puts it before and \<open>cuesBuffer.splice(i+1, 0, x)\<close>
  after the current group. Every branch returns.
\<close>

definition insert_at ::
  "cuesInfos \<Rightarrow> 'e arrays \<Rightarrow> cuesInfos \<Rightarrow> cuesInfos list \<Rightarrow> 'e arrays \<times> cuesInfos list" where
  "insert_at cuesInfosToInsert h cuesInfos rest =
    (let start = infos_start cuesInfosToInsert; end' = infos_end cuesInfosToInsert in
     if areNearlyEqual start (infos_start cuesInfos) then
       if areNearlyEqual end' (infos_end cuesInfos) then
         (h, cuesInfosToInsert # rest)
       else if end' < infos_end cuesInfos then
         (removeInCuesBefore (InfosObject cuesInfos) end' h,
          cuesInfosToInsert # cuesInfos\<lparr>infos_start := end'\<rparr> # rest)
       else
         (case dropCovered end' rest of
            [] \<Rightarrow> (h, [cuesInfosToInsert])
          | next # rest' \<Rightarrow>
              if areNearlyEqual end' (infos_end next) then
                (h, cuesInfosToInsert # rest')
              else
                (removeInCuesBefore (CuesArray (cues next)) end' h,
                 cuesInfosToInsert # next\<lparr>infos_start := end'\<rparr> # rest'))
     else if start < infos_start cuesInfos then
       if end' < infos_start cuesInfos then
         (h, cuesInfosToInsert # cuesInfos # rest)
       else if areNearlyEqual end' (infos_start cuesInfos) then
         (h, cuesInfosToInsert # cuesInfos\<lparr>infos_start := end'\<rparr> # rest)
       else
         (removeInCuesBefore (CuesArray (cues cuesInfos)) end' h,
          cuesInfosToInsert # cuesInfos\<lparr>infos_start := end'\<rparr> # rest)
     else if end' > infos_end cuesInfos \<or> areNearlyEqual end' (infos_end cuesInfos) then
       (removeInCuesAfter (cues cuesInfos) start h,
        cuesInfos\<lparr>infos_end := start\<rparr> # cuesInfosToInsert # rest)
     else
       (h, cuesInfosToInsert # rest))"

text \<open>The loop: groups with \<open>cuesInfos.end <= start\<close> are passed over; with no group left
  the new one is pushed.\<close>

fun insert_loop ::
  "cuesInfos \<Rightarrow> 'e arrays \<Rightarrow> cuesInfos list \<Rightarrow> 'e arrays \<times> cuesInfos list" where
  "insert_loop cuesInfosToInsert h [] = (h, [cuesInfosToInsert])"
| "insert_loop cuesInfosToInsert h (cuesInfos # rest) =
     (if infos_start cuesInfosToInsert < infos_end cuesInfos
      then insert_at cuesInfosToInsert h cuesInfos rest
      else (case insert_loop cuesInfosToInsert h rest of
              (h', rest') \<Rightarrow> (h', cuesInfos # rest')))"

text \<open>\<open>insert(cues, start, end)\<close>; \<open>cs\<close> is the address of the array \<open>cues\<close>.\<close>

definition insert_cues ::
  "nat \<Rightarrow> rat \<Rightarrow> rat \<Rightarrow> 'e textBufferManager \<Rightarrow> 'e textBufferManager" where
  "insert_cues cs start end' m =
     (case insert_loop \<lparr>infos_start = start, infos_end = end', cues = cs\<rparr>
             (arrays m) (cuesBuffer m) of
        (h, b) \<Rightarrow> \<lparr>arrays = h, cuesBuffer = b\<rparr>)"


subsection \<open>Ordering of the buffer\<close>

text \<open>The groups are in ascending order of their starts.\<close>

definition sortedByStart :: "cuesInfos list \<Rightarrow> bool" where
  "sortedByStart b = sorted (map infos_start b)"

text \<open>Adjacent groups do not overlap: each group ends where the next starts, or before.\<close>

fun nonOverlapping :: "cuesInfos list \<Rightarrow> bool" where
  "nonOverlapping (g # g' # rest) = (infos_end g \<le> infos_start g' \<and> nonOverlapping (g' # rest))"
| "nonOverlapping [g] = True"
| "nonOverlapping [] = True"

text \<open>The cues of a group are in ascending order of their starts.\<close>

definition cuesSorted :: "'e cue list \<Rightarrow> bool" where
  "cuesSorted cs = sorted (map cue_start cs)"

fun groupsCuesSorted :: "'e arrays \<Rightarrow> cuesInfos list \<Rightarrow> bool" where
  "groupsCuesSorted h [] = True"
| "groupsCuesSorted h (g # rest) = (cuesSorted (h (cues g)) \<and> groupsCuesSorted h rest)"

definition ordered :: "'e textBufferManager \<Rightarrow> bool" where
  "ordered m = (sortedByStart (cuesBuffer m) \<and> groupsCuesSorted (arrays m) (cuesBuffer m))"

text \<open>
  The lookup as the specification words it: the first group whose range contains
  the time, and in it the cue whose own range contains the time.
\<close>

definition covers :: "rat \<Rightarrow> rat \<Rightarrow> rat \<Rightarrow> bool" where
  "covers s e t = (s \<le> t \<and> t < e)"

definition get_spec :: "rat \<Rightarrow> 'e textBufferManager \<Rightarrow> 'e cue option" where
  "get_spec time m =
     (case find (\<lambda>g. covers (infos_start g) (infos_end g) time) (cuesBuffer m) of
        None \<Rightarrow> None
      | Some g \<Rightarrow> find (\<lambda>c. covers (cue_start c) (cue_end c) time) (arrays m (cues g)))"


section \<open>Segment indexes\<close>

subsection \<open>The template index\<close>

text \<open>
  The fields \<open>getSegments\<close> reads from a SegmentTemplate index. \<open>startNumber\<close> may be
  absent (\<open>startNumber == null\<close>); where present it is an integer, so that the segment
  number is one too.
\<close>

record templateIndex =
  tpl_duration :: rat
  tpl_startNumber :: "int option"
  tpl_timescale :: rat
  tpl_media :: string

text \<open>
  Modelled from the spec: the class \<open>Segment\<close> (\<open>segment.js\<close>) is not among the sources.
  The spec's SegmentDescriptor is an immutable value with the fields \<open>id\<close>, \<open>number\<close>,
  \<open>time\<close>, \<open>duration\<close>, \<open>timescale\<close>, \<open>range\<close>, \<open>indexRange\<close>, \<open>isInit\<close> and the media
  template; the record holds the arguments \<open>getSegments\<close> passes to the constructor,
  as passed.
\<close>

record segment =
  seg_id :: string
  seg_number :: int
  seg_time :: rat
  seg_init :: bool
  seg_duration :: rat
  seg_range :: "(rat \<times> rat) option"
  seg_indexRange :: "(rat \<times> rat) option"
  seg_timescale :: rat
  seg_media :: string

text \<open>The decimal form of an integer, as \<open>"" + number\<close> writes it.\<close>

definition digit :: "nat \<Rightarrow> char" where
  "digit n = ''0123456789'' ! n"

fun decimal :: "nat \<Rightarrow> string" where
  "decimal n = (if n < 10 then [digit n] else decimal (n div 10) @ [digit (n mod 10)])"

declare decimal.simps [simp del]

definition numberToString :: "int \<Rightarrow> string" where
  "numberToString i = (if i < 0 then CHR ''-'' # decimal (nat (- i)) else decimal (nat i))"

text \<open>
  The loop \<open>for (let time = up; time <= to; time += duration)\<close>, with the segments
  pushed so far. Nothing bounds its length: with \<open>duration <= 0\<close> and \<open>up <= to\<close> it
  never ends, and the function then has no value (\<open>None\<close>).
\<close>

partial_function (option) getSegments_loop ::
  "string \<Rightarrow> templateIndex \<Rightarrow> rat \<Rightarrow> rat \<Rightarrow> segment list \<Rightarrow> segment list option" where
  "getSegments_loop repId index to time segments =
     (if time \<le> to then
        (let number = \<lfloor>time / tpl_duration index\<rfloor> +
                      (case tpl_startNumber index of None \<Rightarrow> 1 | Some startNumber \<Rightarrow> startNumber);
             args = \<lparr>seg_id = repId @ ''_'' @ numberToString number,
                     seg_number = number,
                     seg_time = of_int number * tpl_duration index,
                     seg_init = False,
                     seg_duration = tpl_duration index,
                     seg_range = None,
                     seg_indexRange = None,
                     seg_timescale = tpl_timescale index,
                     seg_media = tpl_media index\<rparr>
         in getSegments_loop repId index to (time + tpl_duration index) (segments @ [args]))
      else Some segments)"

declare getSegments_loop.simps [code]

text \<open>
  \<open>getSegments(repId, index, _up, _to)\<close>. The helper \<open>normalizeRange\<close> (\<open>helpers.js\<close>) is
  not among the sources; it is a parameter, returning the pair \<open>(up, to)\<close>.
\<close>

definition getSegments ::
  "(templateIndex \<Rightarrow> rat \<Rightarrow> rat \<Rightarrow> rat \<times> rat) \<Rightarrow> string \<Rightarrow> templateIndex \<Rightarrow> rat \<Rightarrow> rat
     \<Rightarrow> segment list option" where
  "getSegments normalizeRange repId index up' to' =
     (case normalizeRange index up' to' of
        (up, to) \<Rightarrow> getSegments_loop repId index to up [])"

text \<open>
  Modelled from the spec: \<open>normalizeRange\<close> of \<open>helpers.js\<close> is missing. The spec says
  that it normalises the requested range against the bounds of the index, clamping to
  the valid range; a template index has no bounds, so the requested range is returned
  as it is. Used only to run \<open>getSegments\<close> on concrete inputs.
\<close>

definition normalizeRange_unbounded :: "templateIndex \<Rightarrow> rat \<Rightarrow> rat \<Rightarrow> rat \<times> rat" where
  "normalizeRange_unbounded index up' to' = (up', to')"


subsection \<open>The base index\<close>

text \<open>
  An element of a timeline, \<open>{ts, d, r, range}\<close>; a range is a pair of byte offsets or
  \<open>null\<close>.
\<close>

record timelineElement =
  el_ts :: jsnum
  el_d :: jsnum
  el_r :: int
  el_range :: "(nat \<times> nat) option"

record baseIndex =
  idx_timescale :: rat
  idx_timeline :: "timelineElement list"

record segmentInfos =
  si_time :: rat
  si_duration :: rat
  si_timescale :: rat
  si_count :: int
  si_range :: "(nat \<times> nat) option"

text \<open>
  \<open>_addSegmentInfos(index, segmentInfos)\<close> mutates the index and returns a boolean: the
  model returns the index after the call and the boolean.
\<close>

definition addSegmentInfos :: "baseIndex \<Rightarrow> segmentInfos \<Rightarrow> baseIndex \<times> bool" where
  "addSegmentInfos index segmentInfos =
     (if si_timescale segmentInfos \<noteq> idx_timescale index then
        (let timescale = idx_timescale index in
         (index\<lparr>idx_timeline := idx_timeline index @
            [\<lparr>el_ts = js_mul (js_div (si_time segmentInfos) (si_timescale segmentInfos)) timescale,
              el_d = js_mul (js_div (si_duration segmentInfos) (si_timescale segmentInfos)) timescale,
              el_r = si_count segmentInfos,
              el_range = si_range segmentInfos\<rparr>]\<rparr>, True))
      else
        (index\<lparr>idx_timeline := idx_timeline index @
            [\<lparr>el_ts = Num (si_time segmentInfos),
              el_d = Num (si_duration segmentInfos),
              el_r = si_count segmentInfos,
              el_range = si_range segmentInfos\<rparr>]\<rparr>, True))"


subsection \<open>The lookup of the index helpers\<close>

text \<open>
  \<open>__FEATURES__\<close> is fixed when the program is built; it is a parameter. The table
  \<open>indexes\<close> is a plain object filled once, in this order.
\<close>

record features =
  SMOOTH :: bool
  DASH :: bool

datatype indexHelpers = SmoothIndex | TimelineIndex | TemplateIndex | ListIndex | BaseIndex

definition indexes :: "features \<Rightarrow> (string \<times> indexHelpers) list" where
  "indexes f =
     (if SMOOTH f then [(''smooth'', SmoothIndex)] else []) @
     (if DASH f then [(''timeline'', TimelineIndex), (''template'', TemplateIndex),
                      (''list'', ListIndex), (''base'', BaseIndex)] else [])"

text \<open>
  What a call delivers: a value it returns, or an error it throws. \<open>NoSuchIndex\<close> is the
  error kind the specification names for the lookup; no line of the sources throws it.
  Reading a property
  of a plain object never throws: the read gives the object's own property, else the
  property of that name which every object inherits (\<open>constructor\<close>, \<open>toString\<close>, ...;
  their names are the parameter \<open>inherited\<close>), else \<open>undefined\<close>.
\<close>

datatype js_error = TypeError | NoSuchIndex

datatype 'a outcome = Returns 'a | Throws js_error

datatype jsvalue = Undefined | Helpers indexHelpers | Inherited string

record manifestIndex =
  indexType :: string

definition getRightIndexHelpers ::
  "features \<Rightarrow> string list \<Rightarrow> manifestIndex \<Rightarrow> jsvalue outcome" where
  "getRightIndexHelpers f inherited index =
     Returns (case map_of (indexes f) (indexType index) of
                Some helpers \<Rightarrow> Helpers helpers
              | None \<Rightarrow> if indexType index \<in> set inherited
                        then Inherited (indexType index) else Undefined)"


section \<open>The native text track source buffer\<close>

text \<open>
  The text track of the media element holds cues of the platform; the program reads
  their \<open>startTime\<close> and \<open>endTime\<close>. \<open>this._track\<close> is \<open>null\<close> after \<open>_abort\<close>.
  \<open>this.buffered\<close> is the range list of \<open>AbstractSourceBuffer\<close> (\<open>abstract.js\<close>), which
  is not among the sources: its type \<open>'b\<close> and its two operations are parameters, as are
  the parser \<open>parseTextTrackToCues\<close> (\<open>parsers.js\<close>) and \<open>addCue\<close> of the platform's
  text track (which keeps its cues in an order of its own).
\<close>

record vttCue =
  startTime :: rat
  endTime :: rat
  cueText :: string

datatype upper = Upto rat | PlusInfinity

fun le_upper :: "rat \<Rightarrow> upper \<Rightarrow> bool" where
  "le_upper x (Upto y) = (x \<le> y)"
| "le_upper x PlusInfinity = True"

record 'b platform =
  parseTextTrackToCues :: "string \<Rightarrow> string \<Rightarrow> string \<Rightarrow> vttCue list"
  addCue :: "vttCue \<Rightarrow> vttCue list \<Rightarrow> vttCue list"
  buffered_insert :: "jsnum \<Rightarrow> jsnum \<Rightarrow> 'b \<Rightarrow> 'b"
  buffered_remove :: "rat \<Rightarrow> upper \<Rightarrow> 'b \<Rightarrow> 'b"

record 'b nativeTextTrackSourceBuffer =
  track :: "vttCue list option"
  buffered :: 'b

record appendData =
  data_timescale :: rat
  data_start :: rat
  data_end :: "rat option"
  data_data :: string
  data_type :: string
  data_language :: string

text \<open>
  \<open>_remove(from, to)\<close>: the loop visits every index once, from the last to the first,
  and removes the cue there when it lies in the range, which leaves the cues at the
  smaller indices where they are.
\<close>

definition remove_range ::
  "'b platform \<Rightarrow> rat \<Rightarrow> upper \<Rightarrow> 'b nativeTextTrackSourceBuffer
     \<Rightarrow> 'b nativeTextTrackSourceBuffer outcome" where
  "remove_range p from to b =
     (case track b of
        None \<Rightarrow> Throws TypeError
      | Some cs \<Rightarrow>
          Returns \<lparr>track = Some (filter (\<lambda>cue. \<not> (startTime cue \<ge> from \<and>
                                     le_upper (startTime cue) to \<and> le_upper (endTime cue) to)) cs),
                   buffered = buffered_remove p from to (buffered b)\<rparr>)"

text \<open>
  \<open>_append(data)\<close>. The result is the list of the warnings written to the log, and the
  buffer after the call or the error thrown. With \<open>data.end\<close> undefined the difference
  \<open>timescaledEnd - timescaledStart\<close> is \<open>NaN\<close> and the first test fails.
\<close>

definition append_data ::
  "'b platform \<Rightarrow> appendData \<Rightarrow> 'b nativeTextTrackSourceBuffer
     \<Rightarrow> string list \<times> 'b nativeTextTrackSourceBuffer outcome" where
  "append_data p data b =
     (if (case data_end data of None \<Rightarrow> False
          | Some timescaledEnd \<Rightarrow> timescaledEnd - data_start data \<le> 0)
      then ([''Invalid subtitles appended''], Returns b)
      else
        (let startTime' = js_div (data_start data) (data_timescale data);
             endTime' = map_option (\<lambda>timescaledEnd. js_div timescaledEnd (data_timescale data))
                          (data_end data);
             newCues = parseTextTrackToCues p (data_type data) (data_data data) (data_language data)
         in if length newCues > 0 then
              (case track b of
                 None \<Rightarrow> ([], Throws TypeError)
               | Some currentCues \<Rightarrow>
                   (case (if length currentCues > 0 \<and>
                             startTime (hd newCues) < startTime (last currentCues)
                          then remove_range p (startTime (hd newCues)) PlusInfinity b
                          else Returns b) of
                      Throws err \<Rightarrow> ([], Throws err)
                    | Returns b' \<Rightarrow>
                        ([], Returns
                           \<lparr>track = map_option (\<lambda>cs. fold (addCue p) newCues cs) (track b'),
                            buffered = buffered_insert p startTime'
                              (case endTime' of Some t \<Rightarrow> t
                               | None \<Rightarrow> Num (endTime (last newCues)))
                              (buffered b')\<rparr>)))
            else (case endTime' of
                    Some t \<Rightarrow> ([], Returns (b\<lparr>buffered := buffered_insert p startTime' t (buffered b)\<rparr>))
                  | None \<Rightarrow> ([], Returns b))))"


section \<open>Properties of the text buffer manager\<close>

lemma getCueInCues_find:
  "cuesSorted cs \<Longrightarrow>
   getCueInCues t cs = find (\<lambda>c. covers (cue_start c) (cue_end c) t) cs"
proof (induction cs)
  case Nil
  show ?case by simp
next
  case (Cons c cs)
  have later: "\<forall>c' \<in> set cs. cue_start c \<le> cue_start c'"
    using Cons.prems by (simp add: cuesSorted_def)
  have tail: "cuesSorted cs"
    using Cons.prems by (simp add: cuesSorted_def)
  show ?case
  proof (cases "t < cue_end c")
    case False
    then show ?thesis using Cons.IH [OF tail] by (simp add: covers_def)
  next
    case True
    show ?thesis
    proof (cases "cue_start c \<le> t")
      case True
      with \<open>t < cue_end c\<close> show ?thesis by (simp add: covers_def)
    next
      case False
      then have "\<forall>c' \<in> set cs. \<not> covers (cue_start c') (cue_end c') t"
        using later by (auto simp: covers_def)
      then have "find (\<lambda>c. covers (cue_start c) (cue_end c) t) cs = None"
        by (simp add: find_None_iff)
      with False \<open>t < cue_end c\<close> show ?thesis by (simp add: covers_def)
    qed
  qed
qed

lemma get_loop_find:
  "sortedByStart b \<Longrightarrow>
   get_loop t h b =
     (case find (\<lambda>g. covers (infos_start g) (infos_end g) t) b of
        None \<Rightarrow> None
      | Some g \<Rightarrow> getCueInCues t (h (cues g)))"
proof (induction b)
  case Nil
  show ?case by simp
next
  case (Cons g b)
  have later: "\<forall>g' \<in> set b. infos_start g \<le> infos_start g'"
    using Cons.prems by (simp add: sortedByStart_def)
  have tail: "sortedByStart b"
    using Cons.prems by (simp add: sortedByStart_def)
  show ?case
  proof (cases "t < infos_end g")
    case False
    then show ?thesis using Cons.IH [OF tail] by (simp add: covers_def)
  next
    case True
    show ?thesis
    proof (cases "infos_start g \<le> t")
      case True
      with \<open>t < infos_end g\<close> show ?thesis by (simp add: covers_def)
    next
      case False
      then have "\<forall>g' \<in> set b. \<not> covers (infos_start g') (infos_end g') t"
        using later by (auto simp: covers_def)
      then have "find (\<lambda>g. covers (infos_start g) (infos_end g) t) b = None"
        by (simp add: find_None_iff)
      with False \<open>t < infos_end g\<close> show ?thesis by (simp add: covers_def)
    qed
  qed
qed

lemma find_groupsCuesSorted:
  "groupsCuesSorted h b \<Longrightarrow> find P b = Some g \<Longrightarrow> cuesSorted (h (cues g))"
  by (induction b) (auto split: if_splits)

lemma get_refines:
  assumes "ordered m"
  shows "get t m = get_spec t m"
proof -
  let ?P = "\<lambda>g. covers (infos_start g) (infos_end g) t"
  have s: "sortedByStart (cuesBuffer m)" and c: "groupsCuesSorted (arrays m) (cuesBuffer m)"
    using assms by (simp_all add: ordered_def)
  show ?thesis
  proof (cases "find ?P (cuesBuffer m)")
    case None
    then show ?thesis by (simp add: get_def get_spec_def get_loop_find [OF s])
  next
    case (Some g)
    then have "cuesSorted (arrays m (cues g))"
      using find_groupsCuesSorted [OF c] by blast
    then show ?thesis using Some
      by (simp add: get_def get_spec_def get_loop_find [OF s] getCueInCues_find)
  qed
qed

lemma first_insert:
  "insert_cues a start end' (newTextBufferManager h) =
     \<lparr>arrays = h, cuesBuffer = [\<lparr>infos_start = start, infos_end = end', cues = a\<rparr>]\<rparr>"
  by (simp add: insert_cues_def newTextBufferManager_def)

text \<open>
  Claim C2. In a buffer whose groups are in ascending order of their starts, each with
  its cues in ascending order of their starts, \<open>get(t)\<close> is the lookup of the
  specification: the first group whose range \<open>[start, end)\<close> contains \<open>t\<close> is looked
  for, and in it the first cue whose own range contains \<open>t\<close>; the result is absence when
  no group contains \<open>t\<close> (before every group, after the last, in a gap between two) or
  no cue of the containing group does. After \<open>insert(cuesA, 0, 10)\<close> on an empty buffer,
  \<open>get(5)\<close> is a cue of \<open>cuesA\<close> that covers 5 when \<open>cuesA\<close> (in order) has one, and
  \<open>get(15)\<close> is absence.
\<close>

theorem get_returns_covering_cue:
  "(ordered m \<longrightarrow> get t m = get_spec t m) \<and>
   (cuesSorted (h a) \<and> c \<in> set (h a) \<and> covers (cue_start c) (cue_end c) 5 \<longrightarrow>
      (\<exists>c'. get 5 (insert_cues a 0 10 (newTextBufferManager h)) = Some c' \<and>
            c' \<in> set (h a) \<and> covers (cue_start c') (cue_end c') 5)) \<and>
   get 15 (insert_cues a 0 10 (newTextBufferManager h)) = None"
proof (intro conjI impI)
  assume "ordered m"
  then show "get t m = get_spec t m" by (rule get_refines)
next
  let ?P = "\<lambda>c. covers (cue_start c) (cue_end c) 5"
  assume a: "cuesSorted (h a) \<and> c \<in> set (h a) \<and> ?P c"
  then have "find ?P (h a) \<noteq> None" by (auto simp: find_None_iff)
  then obtain c' where f: "find ?P (h a) = Some c'" by blast
  then have "c' \<in> set (h a) \<and> ?P c'"
    by (auto simp: find_Some_iff)
  moreover have "get 5 (insert_cues a 0 10 (newTextBufferManager h)) = Some c'"
    using a f by (simp add: first_insert get_def getCueInCues_find)
  ultimately show "\<exists>c'. get 5 (insert_cues a 0 10 (newTextBufferManager h)) = Some c' \<and>
            c' \<in> set (h a) \<and> ?P c'" by blast
next
  show "get 15 (insert_cues a 0 10 (newTextBufferManager h)) = None"
    by (simp add: first_insert get_def)
qed

theorem get_returns_covering_cue_witness:
  "ordered \<lparr>arrays = (\<lambda>_. [])(1 := [\<lparr>cue_start = 0, cue_end = 4, element = ''a''\<rparr>,
                                     \<lparr>cue_start = 6, cue_end = 9, element = ''b''\<rparr>],
                            2 := [\<lparr>cue_start = 20, cue_end = 25, element = ''c''\<rparr>]),
            cuesBuffer = [\<lparr>infos_start = 0, infos_end = 10, cues = 1\<rparr>,
                          \<lparr>infos_start = 20, infos_end = 30, cues = 2\<rparr>]\<rparr> \<and>
   get 7 \<lparr>arrays = (\<lambda>_. [])(1 := [\<lparr>cue_start = 0, cue_end = 4, element = ''a''\<rparr>,
                                  \<lparr>cue_start = 6, cue_end = 9, element = ''b''\<rparr>],
                         2 := [\<lparr>cue_start = 20, cue_end = 25, element = ''c''\<rparr>]),
          cuesBuffer = [\<lparr>infos_start = 0, infos_end = 10, cues = 1\<rparr>,
                        \<lparr>infos_start = 20, infos_end = 30, cues = 2\<rparr>]\<rparr>
     = get_spec 7 \<lparr>arrays = (\<lambda>_. [])(1 := [\<lparr>cue_start = 0, cue_end = 4, element = ''a''\<rparr>,
                                  \<lparr>cue_start = 6, cue_end = 9, element = ''b''\<rparr>],
                         2 := [\<lparr>cue_start = 20, cue_end = 25, element = ''c''\<rparr>]),
          cuesBuffer = [\<lparr>infos_start = 0, infos_end = 10, cues = 1\<rparr>,
                        \<lparr>infos_start = 20, infos_end = 30, cues = 2\<rparr>]\<rparr> \<and>
   get_spec 7 \<lparr>arrays = (\<lambda>_. [])(1 := [\<lparr>cue_start = 0, cue_end = 4, element = ''a''\<rparr>,
                                  \<lparr>cue_start = 6, cue_end = 9, element = ''b''\<rparr>],
                         2 := [\<lparr>cue_start = 20, cue_end = 25, element = ''c''\<rparr>]),
          cuesBuffer = [\<lparr>infos_start = 0, infos_end = 10, cues = 1\<rparr>,
                        \<lparr>infos_start = 20, infos_end = 30, cues = 2\<rparr>]\<rparr>
     = Some \<lparr>cue_start = 6, cue_end = 9, element = ''b''\<rparr> \<and>
   cuesSorted (((\<lambda>_. [])(1 := [\<lparr>cue_start = 0, cue_end = 4, element = ''a''\<rparr>,
                               \<lparr>cue_start = 4, cue_end = 9, element = ''b''\<rparr>])) 1) \<and>
   (\<exists>c'. get 5 (insert_cues 1 0 10 (newTextBufferManager
              ((\<lambda>_. [])(1 := [\<lparr>cue_start = 0, cue_end = 4, element = ''a''\<rparr>,
                               \<lparr>cue_start = 4, cue_end = 9, element = ''b''\<rparr>])))) = Some c' \<and>
         c' \<in> set (((\<lambda>_. [])(1 := [\<lparr>cue_start = 0, cue_end = 4, element = ''a''\<rparr>,
                               \<lparr>cue_start = 4, cue_end = 9, element = ''b''\<rparr>])) 1) \<and>
         covers (cue_start c') (cue_end c') 5)"
  using get_returns_covering_cue
    [of "\<lparr>arrays = (\<lambda>_. [])(1 := [\<lparr>cue_start = 0, cue_end = 4, element = ''a''\<rparr>,
                                     \<lparr>cue_start = 6, cue_end = 9, element = ''b''\<rparr>],
                            2 := [\<lparr>cue_start = 20, cue_end = 25, element = ''c''\<rparr>]),
            cuesBuffer = [\<lparr>infos_start = 0, infos_end = 10, cues = 1\<rparr>,
                          \<lparr>infos_start = 20, infos_end = 30, cues = 2\<rparr>]\<rparr>"
        7
        "(\<lambda>_. [])(1 := [\<lparr>cue_start = 0, cue_end = 4, element = ''a''\<rparr>,
                               \<lparr>cue_start = 4, cue_end = 9, element = ''b''\<rparr>])"
        1
        "\<lparr>cue_start = 4, cue_end = 9, element = ''b''\<rparr>"]
  by (simp add: ordered_def sortedByStart_def cuesSorted_def covers_def get_spec_def)

lemmas insert_eval = insert_cues_def newTextBufferManager_def insert_at_def areNearlyEqual_def
  MAX_DELTA_BUFFER_TIME_def removeInCuesAfter_def

text \<open>
  Claim C1. The claim says that every sequence of insertions (each with
  \<open>start < end\<close>) into an empty buffer leaves the groups in ascending order of start
  with \<open>g\<^sub>i.end <= g\<^sub>i\<^sub>+\<^sub>1.start\<close> for adjacent groups. The code does not keep this: after
  \<open>insert(c0, 0, 10)\<close>, \<open>insert(c1, 20, 30)\<close>, \<open>insert(c2, 5, 25)\<close> the buffer is
  \<open>[0, 5)\<close>, \<open>[5, 25)\<close>, \<open>[20, 30)\<close>. The third insertion starts inside \<open>[0, 10)\<close> and
  ends beyond it; that branch puts the new group after the current one and does not
  look at the groups that follow. The order of the starts is lost as well: after
  \<open>insert(c0, 10, 20)\<close>, \<open>insert(c1, 25, 28)\<close>, \<open>insert(c2, 0, 30)\<close> the buffer is
  \<open>[0, 30)\<close>, \<open>[30, 20)\<close>, \<open>[25, 28)\<close>, because the branch for an insertion that starts
  before the current group moves that group's start to \<open>end\<close> whatever its end is.
\<close>

theorem insert_leaves_overlapping_groups:
  "cuesBuffer (insert_cues 2 5 25 (insert_cues 1 20 30 (insert_cues 0 0 10
       (newTextBufferManager (\<lambda>_. [] :: unit cue list))))) =
     [\<lparr>infos_start = 0, infos_end = 5, cues = 0\<rparr>,
      \<lparr>infos_start = 5, infos_end = 25, cues = 2\<rparr>,
      \<lparr>infos_start = 20, infos_end = 30, cues = 1\<rparr>] \<and>
   \<not> nonOverlapping (cuesBuffer (insert_cues 2 5 25 (insert_cues 1 20 30 (insert_cues 0 0 10
       (newTextBufferManager (\<lambda>_. [] :: unit cue list)))))) \<and>
   cuesBuffer (insert_cues 2 0 30 (insert_cues 1 25 28 (insert_cues 0 10 20
       (newTextBufferManager (\<lambda>_. [] :: unit cue list))))) =
     [\<lparr>infos_start = 0, infos_end = 30, cues = 2\<rparr>,
      \<lparr>infos_start = 30, infos_end = 20, cues = 0\<rparr>,
      \<lparr>infos_start = 25, infos_end = 28, cues = 1\<rparr>] \<and>
   \<not> sortedByStart (cuesBuffer (insert_cues 2 0 30 (insert_cues 1 25 28 (insert_cues 0 10 20
       (newTextBufferManager (\<lambda>_. [] :: unit cue list))))))"
  by (simp add: insert_eval sortedByStart_def)

lemma insert_loop_replace:
  assumes "\<forall>x \<in> set pre. infos_end x \<le> infos_start new"
    and "infos_start new < infos_end g"
    and "areNearlyEqual (infos_start new) (infos_start g)"
    and "areNearlyEqual (infos_end new) (infos_end g)"
  shows "insert_loop new h (pre @ g # post) = (h, pre @ new # post)"
  using assms by (induction pre) (simp_all add: insert_at_def)

text \<open>
  Claim C3. The claim says that an insertion of \<open>[s, e)\<close> replaces every stored group \<open>g\<close>
  with \<open>|s - g.start| <= 0.2\<close> and \<open>|e - g.end| <= 0.2\<close>: \<open>g\<close> leaves the buffer and the new
  group takes its place. The code does not do so when the group before \<open>g\<close> still ends
  after \<open>s\<close>. After \<open>insert(c0, 0, 10)\<close> and \<open>insert(c1, 10, 20)\<close>, the call
  \<open>insert(c2, 9.875, 20)\<close> is within the tolerance of \<open>g = [10, 20)\<close> on both bounds, but
  the loop stops at \<open>[0, 10)\<close>, cuts it to \<open>[0, 9.875)\<close> and puts the new group after
  it: \<open>g\<close> is still in the buffer, behind the new group and overlapped by it.
\<close>

theorem nearly_equal_group_stays_in_buffer:
  "\<bar>79 / 8 - infos_start \<lparr>infos_start = 10, infos_end = 20, cues = 1\<rparr>\<bar> \<le> 1 / 5 \<and>
   \<bar>20 - infos_end \<lparr>infos_start = 10, infos_end = 20, cues = 1\<rparr>\<bar> \<le> 1 / 5 \<and>
   cuesBuffer (insert_cues 1 10 20 (insert_cues 0 0 10
       (newTextBufferManager (\<lambda>_. [] :: unit cue list)))) =
     [\<lparr>infos_start = 0, infos_end = 10, cues = 0\<rparr>,
      \<lparr>infos_start = 10, infos_end = 20, cues = 1\<rparr>] \<and>
   cuesBuffer (insert_cues 2 (79 / 8) 20 (insert_cues 1 10 20 (insert_cues 0 0 10
       (newTextBufferManager (\<lambda>_. [] :: unit cue list))))) =
     [\<lparr>infos_start = 0, infos_end = 79 / 8, cues = 0\<rparr>,
      \<lparr>infos_start = 79 / 8, infos_end = 20, cues = 2\<rparr>,
      \<lparr>infos_start = 10, infos_end = 20, cues = 1\<rparr>] \<and>
   \<lparr>infos_start = 10, infos_end = 20, cues = 1\<rparr> \<in>
     set (cuesBuffer (insert_cues 2 (79 / 8) 20 (insert_cues 1 10 20 (insert_cues 0 0 10
       (newTextBufferManager (\<lambda>_. [] :: unit cue list))))))"
  by (simp add: insert_eval Let_def)

lemma insert_at_shape:
  assumes "infos_start new < infos_end new" and "insert_at new h g rest = (h', b')"
  shows "\<exists>pre post. b' = pre @ new # post \<and> (\<forall>x \<in> set pre. infos_end x \<le> infos_start new)"
proof -
  have "(\<exists>post. b' = new # post) \<or> (\<exists>post. b' = g\<lparr>infos_end := infos_start new\<rparr> # new # post)"
    using assms(2) by (auto simp: insert_at_def Let_def split: if_splits list.splits)
  then show ?thesis
  proof
    assume "\<exists>post. b' = new # post"
    then obtain post where "b' = [] @ new # post" by auto
    then show ?thesis by fastforce
  next
    assume "\<exists>post. b' = g\<lparr>infos_end := infos_start new\<rparr> # new # post"
    then obtain post where "b' = [g\<lparr>infos_end := infos_start new\<rparr>] @ new # post" by auto
    moreover have "\<forall>x \<in> set [g\<lparr>infos_end := infos_start new\<rparr>]. infos_end x \<le> infos_start new"
      by simp
    ultimately show ?thesis by blast
  qed
qed

lemma insert_loop_shape:
  assumes "infos_start new < infos_end new"
  shows "insert_loop new h b = (h', b') \<Longrightarrow>
    \<exists>pre post. b' = pre @ new # post \<and> (\<forall>x \<in> set pre. infos_end x \<le> infos_start new)"
proof (induction b arbitrary: h' b')
  case Nil
  then have "b' = [] @ new # []" by simp
  then show ?case by fastforce
next
  case (Cons g b)
  show ?case
  proof (cases "infos_start new < infos_end g")
    case True
    with Cons.prems have "insert_at new h g b = (h', b')" by simp
    from insert_at_shape [OF assms this] show ?thesis .
  next
    case False
    obtain h1 b1 where r: "insert_loop new h b = (h1, b1)"
      by (cases "insert_loop new h b")
    with False Cons.prems have b': "b' = g # b1" by simp
    from Cons.IH [OF r] obtain pre post where
      "b1 = pre @ new # post" "\<forall>x \<in> set pre. infos_end x \<le> infos_start new" by blast
    with b' False have "b' = (g # pre) @ new # post \<and>
        (\<forall>x \<in> set (g # pre). infos_end x \<le> infos_start new)"
      by simp
    then show ?thesis by blast
  qed
qed

lemma insert_loop_again:
  assumes "infos_start new < infos_end new"
    and "\<forall>x \<in> set pre. infos_end x \<le> infos_start new"
  shows "insert_loop new h (pre @ new # post) = (h, pre @ new # post)"
  using assms
  by (intro insert_loop_replace) (simp_all add: areNearlyEqual_def MAX_DELTA_BUFFER_TIME_def)

lemma insert_twice:
  assumes "start < end'"
  shows "insert_cues cs start end' (insert_cues cs start end' m) = insert_cues cs start end' m"
proof -
  let ?new = "\<lparr>infos_start = start, infos_end = end', cues = cs\<rparr>"
  obtain h b where r: "insert_loop ?new (arrays m) (cuesBuffer m) = (h, b)"
    by (cases "insert_loop ?new (arrays m) (cuesBuffer m)")
  have lt: "infos_start ?new < infos_end ?new" using assms by simp
  from insert_loop_shape [OF lt r] obtain pre post where
    b: "b = pre @ ?new # post" and pre: "\<forall>x \<in> set pre. infos_end x \<le> infos_start ?new"
    by blast
  have "insert_loop ?new h b = (h, b)"
    unfolding b using insert_loop_again [OF lt pre] .
  with r show ?thesis by (simp add: insert_cues_def)
qed

text \<open>
  Claim C4. For every state of the buffer and of the cue arrays, and every
  \<open>(cues, start, end)\<close> with \<open>start < end\<close>, a second \<open>insert(cues, start, end)\<close> right
  after the first changes nothing: the buffer holds the same groups, the group of the
  insertion holds the same array \<open>cues\<close>, and no array has changed. So \<open>get(t)\<close> returns
  the same cue of the same array after two insertions as after one, for every \<open>t\<close>.
\<close>

theorem insert_twice_same_lookup:
  assumes "start < end'"
  shows "insert_cues cs start end' (insert_cues cs start end' m) = insert_cues cs start end' m \<and>
         get t (insert_cues cs start end' (insert_cues cs start end' m)) =
           get t (insert_cues cs start end' m)"
proof -
  have "insert_cues cs start end' (insert_cues cs start end' m) = insert_cues cs start end' m"
    using assms by (rule insert_twice)
  then show ?thesis by simp
qed

theorem insert_twice_same_lookup_witness:
  "(5 :: rat) < 10 \<and>
   get 6 (insert_cues 1 5 10 (insert_cues 1 5 10
      \<lparr>arrays = (\<lambda>_. [])(0 := [\<lparr>cue_start = 0, cue_end = 4, element = ''a''\<rparr>,
                                \<lparr>cue_start = 6, cue_end = 8, element = ''b''\<rparr>],
                          1 := [\<lparr>cue_start = 5, cue_end = 7, element = ''c''\<rparr>]),
       cuesBuffer = [\<lparr>infos_start = 0, infos_end = 10, cues = 0\<rparr>]\<rparr>)) =
   get 6 (insert_cues 1 5 10
      \<lparr>arrays = (\<lambda>_. [])(0 := [\<lparr>cue_start = 0, cue_end = 4, element = ''a''\<rparr>,
                                \<lparr>cue_start = 6, cue_end = 8, element = ''b''\<rparr>],
                          1 := [\<lparr>cue_start = 5, cue_end = 7, element = ''c''\<rparr>]),
       cuesBuffer = [\<lparr>infos_start = 0, infos_end = 10, cues = 0\<rparr>]\<rparr>) \<and>
   get 6 (insert_cues 1 5 10
      \<lparr>arrays = (\<lambda>_. [])(0 := [\<lparr>cue_start = 0, cue_end = 4, element = ''a''\<rparr>,
                                \<lparr>cue_start = 6, cue_end = 8, element = ''b''\<rparr>],
                          1 := [\<lparr>cue_start = 5, cue_end = 7, element = ''c''\<rparr>]),
       cuesBuffer = [\<lparr>infos_start = 0, infos_end = 10, cues = 0\<rparr>]\<rparr>) =
     Some \<lparr>cue_start = 5, cue_end = 7, element = ''c''\<rparr>"
  using insert_twice_same_lookup
    [of 5 10 1
        "\<lparr>arrays = (\<lambda>_. [])(0 := [\<lparr>cue_start = 0, cue_end = 4, element = ''a''\<rparr>,
                                \<lparr>cue_start = 6, cue_end = 8, element = ''b''\<rparr>],
                          1 := [\<lparr>cue_start = 5, cue_end = 7, element = ''c''\<rparr>]),
       cuesBuffer = [\<lparr>infos_start = 0, infos_end = 10, cues = 0\<rparr>]\<rparr>" 6]
  by (simp add: insert_eval get_def)

lemma removeInCuesBefore_of_group_object:
  "removeInCuesBefore (InfosObject g) time h = h"
  by simp

lemma removeInCuesAfter_loop_keeps_later_cues:
  "removeInCuesAfter_loop cs time = takeWhile (\<lambda>cue. time \<le> cue_start cue) cs"
  by (induction cs) auto

text \<open>
  Claim C5. The claim says that an insertion whose start is within 0.2 of the start
  of the first overlapped group \<open>g\<close> and whose end lies before \<open>g.end\<close> (by more than
  0.2) removes from \<open>g\<close>'s cues those that start before \<open>end\<close>. The code calls
  \<open>removeInCuesBefore\<close> on the group object instead of its cue array, which removes
  nothing: after \<open>insert(c0, 0, 10)\<close> with the cues \<open>[0, 2)\<close>, \<open>[2, 4)\<close>, \<open>[6, 8)\<close>, and
  \<open>insert(c1, 0, 5)\<close>, the group \<open>g\<close> is \<open>[5, 10)\<close> and its array still holds all
  three cues, two of which end before 5.
\<close>

theorem insert_before_keeps_all_cues:
  "cuesBuffer (insert_cues 1 0 5 (insert_cues 0 0 10 (newTextBufferManager
      ((\<lambda>_. [])(0 := [\<lparr>cue_start = 0, cue_end = 2, element = ''a''\<rparr>,
                       \<lparr>cue_start = 2, cue_end = 4, element = ''b''\<rparr>,
                       \<lparr>cue_start = 6, cue_end = 8, element = ''c''\<rparr>],
                 1 := [\<lparr>cue_start = 0, cue_end = 5, element = ''n''\<rparr>]))))) =
     [\<lparr>infos_start = 0, infos_end = 5, cues = 1\<rparr>,
      \<lparr>infos_start = 5, infos_end = 10, cues = 0\<rparr>] \<and>
   arrays (insert_cues 1 0 5 (insert_cues 0 0 10 (newTextBufferManager
      ((\<lambda>_. [])(0 := [\<lparr>cue_start = 0, cue_end = 2, element = ''a''\<rparr>,
                       \<lparr>cue_start = 2, cue_end = 4, element = ''b''\<rparr>,
                       \<lparr>cue_start = 6, cue_end = 8, element = ''c''\<rparr>],
                 1 := [\<lparr>cue_start = 0, cue_end = 5, element = ''n''\<rparr>]))))) 0 =
     [\<lparr>cue_start = 0, cue_end = 2, element = ''a''\<rparr>,
      \<lparr>cue_start = 2, cue_end = 4, element = ''b''\<rparr>,
      \<lparr>cue_start = 6, cue_end = 8, element = ''c''\<rparr>]"
  by (simp add: insert_eval)

text \<open>
  Claim C6. The claim says that an insertion that starts after the start of the
  first overlapped group \<open>g\<close> and ends beyond \<open>g.end\<close> (or within 0.2 of it) removes from
  \<open>g\<close>'s cues those at or after \<open>start\<close> and keeps those before. \<open>removeInCuesAfter\<close>
  compares the other way round: it cuts the array at the first cue that starts
  \<^emph>\<open>before\<close> \<open>start\<close>. After \<open>insert(c0, 0, 10)\<close> with the cues \<open>[0, 2)\<close>, \<open>[2, 4)\<close>,
  \<open>[6, 8)\<close>, and \<open>insert(c1, 5, 10)\<close>, the array of \<open>g = [0, 5)\<close> is empty: the cues
  \<open>[0, 2)\<close> and \<open>[2, 4)\<close>, which lie before 5, are gone too.
\<close>

theorem insert_after_removes_earlier_cues:
  "cuesBuffer (insert_cues 1 5 10 (insert_cues 0 0 10 (newTextBufferManager
      ((\<lambda>_. [])(0 := [\<lparr>cue_start = 0, cue_end = 2, element = ''a''\<rparr>,
                       \<lparr>cue_start = 2, cue_end = 4, element = ''b''\<rparr>,
                       \<lparr>cue_start = 6, cue_end = 8, element = ''c''\<rparr>],
                 1 := [\<lparr>cue_start = 5, cue_end = 10, element = ''n''\<rparr>]))))) =
     [\<lparr>infos_start = 0, infos_end = 5, cues = 0\<rparr>,
      \<lparr>infos_start = 5, infos_end = 10, cues = 1\<rparr>] \<and>
   arrays (insert_cues 1 5 10 (insert_cues 0 0 10 (newTextBufferManager
      ((\<lambda>_. [])(0 := [\<lparr>cue_start = 0, cue_end = 2, element = ''a''\<rparr>,
                       \<lparr>cue_start = 2, cue_end = 4, element = ''b''\<rparr>,
                       \<lparr>cue_start = 6, cue_end = 8, element = ''c''\<rparr>],
                 1 := [\<lparr>cue_start = 5, cue_end = 10, element = ''n''\<rparr>]))))) 0 = []"
  by (simp add: insert_eval)


section \<open>Properties of the segment indexes\<close>

lemma decimal_digit: "n < 10 \<Longrightarrow> decimal n = [digit n]"
  by (subst decimal.simps) simp

lemma getSegments_loop_times:
  assumes "getSegments_loop repId index to t acc = Some segs"
  shows "list_all (\<lambda>s. seg_time s = of_int (seg_number s) * tpl_duration index) acc \<longrightarrow>
         list_all (\<lambda>s. seg_time s = of_int (seg_number s) * tpl_duration index) segs"
proof (rule getSegments_loop.raw_induct
    [where P = "\<lambda>repId index to t acc segs.
         list_all (\<lambda>s. seg_time s = of_int (seg_number s) * tpl_duration index) acc \<longrightarrow>
         list_all (\<lambda>s. seg_time s = of_int (seg_number s) * tpl_duration index) segs",
     OF _ assms])
  fix loop :: "string \<Rightarrow> templateIndex \<Rightarrow> rat \<Rightarrow> rat \<Rightarrow> segment list \<Rightarrow> segment list option"
  fix repId index to t acc segs
  assume IH: "\<And>repId index to t acc segs. loop repId index to t acc = Some segs \<Longrightarrow>
      list_all (\<lambda>s. seg_time s = of_int (seg_number s) * tpl_duration index) acc \<longrightarrow>
      list_all (\<lambda>s. seg_time s = of_int (seg_number s) * tpl_duration index) segs"
  assume step: "(if t \<le> to then
        (let number = \<lfloor>t / tpl_duration index\<rfloor> +
                      (case tpl_startNumber index of None \<Rightarrow> 1 | Some startNumber \<Rightarrow> startNumber);
             args = \<lparr>seg_id = repId @ ''_'' @ numberToString number,
                     seg_number = number,
                     seg_time = of_int number * tpl_duration index,
                     seg_init = False,
                     seg_duration = tpl_duration index,
                     seg_range = None,
                     seg_indexRange = None,
                     seg_timescale = tpl_timescale index,
                     seg_media = tpl_media index\<rparr>
         in loop repId index to (t + tpl_duration index) (acc @ [args]))
      else Some acc) = Some segs"
  show "list_all (\<lambda>s. seg_time s = of_int (seg_number s) * tpl_duration index) acc \<longrightarrow>
        list_all (\<lambda>s. seg_time s = of_int (seg_number s) * tpl_duration index) segs"
  proof (cases "t \<le> to")
    case False
    with step show ?thesis by simp
  next
    case True
    with step IH show ?thesis
      by (fastforce simp: Let_def)
  qed
qed

lemmas getSegments_eval = getSegments_def getSegments_loop.simps numberToString_def
  decimal_digit digit_def

text \<open>
  Claim C7, as stated, fails: for the index \<open>{duration: 4, timescale: 1, startNumber: 1,
  media: "seg-$Number$"}\<close> and the range from 0 to 10, \<open>getSegments\<close> returns three
  segments numbered 1, 2, 3, but their times are 4, 8, 12 and not 0, 4, 8: the time
  of a segment is its number, which includes \<open>startNumber\<close>, times the duration.
\<close>

theorem template_times_are_not_0_4_8:
  "getSegments normalizeRange_unbounded ''rep1''
      \<lparr>tpl_duration = 4, tpl_startNumber = Some 1, tpl_timescale = 1,
        tpl_media = ''seg-$Number$''\<rparr> 0 10 =
     Some [\<lparr>seg_id = ''rep1_1'', seg_number = 1, seg_time = 4, seg_init = False,
         seg_duration = 4, seg_range = None, seg_indexRange = None, seg_timescale = 1,
         seg_media = ''seg-$Number$''\<rparr>,
        \<lparr>seg_id = ''rep1_2'', seg_number = 2, seg_time = 8, seg_init = False,
         seg_duration = 4, seg_range = None, seg_indexRange = None, seg_timescale = 1,
         seg_media = ''seg-$Number$''\<rparr>,
        \<lparr>seg_id = ''rep1_3'', seg_number = 3, seg_time = 12, seg_init = False,
         seg_duration = 4, seg_range = None, seg_indexRange = None, seg_timescale = 1,
         seg_media = ''seg-$Number$''\<rparr>] \<and>
   map_option (map seg_number) (getSegments normalizeRange_unbounded ''rep1''
      \<lparr>tpl_duration = 4, tpl_startNumber = Some 1, tpl_timescale = 1,
        tpl_media = ''seg-$Number$''\<rparr> 0 10) = Some [1, 2, 3] \<and>
   map_option (map seg_time) (getSegments normalizeRange_unbounded ''rep1''
      \<lparr>tpl_duration = 4, tpl_startNumber = Some 1, tpl_timescale = 1,
        tpl_media = ''seg-$Number$''\<rparr> 0 10) = Some [4, 8, 12] \<and>
   map_option (map seg_time) (getSegments normalizeRange_unbounded ''rep1''
      \<lparr>tpl_duration = 4, tpl_startNumber = Some 1, tpl_timescale = 1,
        tpl_media = ''seg-$Number$''\<rparr> 0 10) \<noteq> Some [0, 4, 8]"
  by (simp add: getSegments_eval normalizeRange_unbounded_def)

text \<open>
  Claim C7, amended. Whatever the range helper returns, every segment that
  \<open>getSegments\<close> returns has \<open>time = number * duration\<close>. For the index
  \<open>{duration: 4, timescale: 1, startNumber: 1, media: "seg-$Number$"}\<close>, when the helper
  gives the range from 0 to 10 for the request \<open>(0, 10)\<close>, \<open>getSegments("rep1", index, 0,
  10)\<close> returns exactly three segments, numbered 1, 2, 3, whose times are 4, 8, 12.
\<close>

theorem template_segments_of_scenario:
  "(getSegments normalizeRange repId index up' to' = Some segs \<longrightarrow>
      list_all (\<lambda>s. seg_time s = of_int (seg_number s) * tpl_duration index) segs) \<and>
   (normalizeRange' \<lparr>tpl_duration = 4, tpl_startNumber = Some 1, tpl_timescale = 1,
        tpl_media = ''seg-$Number$''\<rparr> 0 10 = (0, 10) \<longrightarrow>
      getSegments normalizeRange' ''rep1'' \<lparr>tpl_duration = 4, tpl_startNumber = Some 1, tpl_timescale = 1,
        tpl_media = ''seg-$Number$''\<rparr> 0 10 =
        Some [\<lparr>seg_id = ''rep1_1'', seg_number = 1, seg_time = 4, seg_init = False,
         seg_duration = 4, seg_range = None, seg_indexRange = None, seg_timescale = 1,
         seg_media = ''seg-$Number$''\<rparr>,
        \<lparr>seg_id = ''rep1_2'', seg_number = 2, seg_time = 8, seg_init = False,
         seg_duration = 4, seg_range = None, seg_indexRange = None, seg_timescale = 1,
         seg_media = ''seg-$Number$''\<rparr>,
        \<lparr>seg_id = ''rep1_3'', seg_number = 3, seg_time = 12, seg_init = False,
         seg_duration = 4, seg_range = None, seg_indexRange = None, seg_timescale = 1,
         seg_media = ''seg-$Number$''\<rparr>])"
proof (intro conjI impI)
  assume r: "getSegments normalizeRange repId index up' to' = Some segs"
  obtain up to where "normalizeRange index up' to' = (up, to)"
    by (cases "normalizeRange index up' to'")
  with r have "getSegments_loop repId index to up [] = Some segs"
    by (simp add: getSegments_def)
  from getSegments_loop_times [OF this]
  show "list_all (\<lambda>s. seg_time s = of_int (seg_number s) * tpl_duration index) segs"
    by simp
next
  assume "normalizeRange' \<lparr>tpl_duration = 4, tpl_startNumber = Some 1, tpl_timescale = 1,
        tpl_media = ''seg-$Number$''\<rparr> 0 10 = (0, 10)"
  then show "getSegments normalizeRange' ''rep1'' \<lparr>tpl_duration = 4, tpl_startNumber = Some 1, tpl_timescale = 1,
        tpl_media = ''seg-$Number$''\<rparr> 0 10 =
        Some [\<lparr>seg_id = ''rep1_1'', seg_number = 1, seg_time = 4, seg_init = False,
         seg_duration = 4, seg_range = None, seg_indexRange = None, seg_timescale = 1,
         seg_media = ''seg-$Number$''\<rparr>,
        \<lparr>seg_id = ''rep1_2'', seg_number = 2, seg_time = 8, seg_init = False,
         seg_duration = 4, seg_range = None, seg_indexRange = None, seg_timescale = 1,
         seg_media = ''seg-$Number$''\<rparr>,
        \<lparr>seg_id = ''rep1_3'', seg_number = 3, seg_time = 12, seg_init = False,
         seg_duration = 4, seg_range = None, seg_indexRange = None, seg_timescale = 1,
         seg_media = ''seg-$Number$''\<rparr>]"
    by (simp add: getSegments_eval)
qed

theorem template_segments_of_scenario_witness:
  "normalizeRange_unbounded \<lparr>tpl_duration = 4, tpl_startNumber = Some 1, tpl_timescale = 1,
        tpl_media = ''seg-$Number$''\<rparr> 0 10 = (0, 10) \<and>
   getSegments normalizeRange_unbounded ''rep7''
      \<lparr>tpl_duration = 3, tpl_startNumber = None, tpl_timescale = 1, tpl_media = ''m''\<rparr> 3 5 =
     Some [\<lparr>seg_id = ''rep7_2'', seg_number = 2, seg_time = 6, seg_init = False,
            seg_duration = 3, seg_range = None, seg_indexRange = None, seg_timescale = 1,
            seg_media = ''m''\<rparr>] \<and>
   list_all (\<lambda>s. seg_time s = of_int (seg_number s) *
        tpl_duration \<lparr>tpl_duration = 3, tpl_startNumber = None, tpl_timescale = 1,
                      tpl_media = ''m''\<rparr>)
     [\<lparr>seg_id = ''rep7_2'', seg_number = 2, seg_time = 6, seg_init = False,
            seg_duration = 3, seg_range = None, seg_indexRange = None, seg_timescale = 1,
            seg_media = ''m''\<rparr>] \<and>
   getSegments normalizeRange_unbounded ''rep1'' \<lparr>tpl_duration = 4, tpl_startNumber = Some 1, tpl_timescale = 1,
        tpl_media = ''seg-$Number$''\<rparr> 0 10 =
     Some [\<lparr>seg_id = ''rep1_1'', seg_number = 1, seg_time = 4, seg_init = False,
         seg_duration = 4, seg_range = None, seg_indexRange = None, seg_timescale = 1,
         seg_media = ''seg-$Number$''\<rparr>,
        \<lparr>seg_id = ''rep1_2'', seg_number = 2, seg_time = 8, seg_init = False,
         seg_duration = 4, seg_range = None, seg_indexRange = None, seg_timescale = 1,
         seg_media = ''seg-$Number$''\<rparr>,
        \<lparr>seg_id = ''rep1_3'', seg_number = 3, seg_time = 12, seg_init = False,
         seg_duration = 4, seg_range = None, seg_indexRange = None, seg_timescale = 1,
         seg_media = ''seg-$Number$''\<rparr>]"
  using template_segments_of_scenario
    [of normalizeRange_unbounded "''rep7''"
        "\<lparr>tpl_duration = 3, tpl_startNumber = None, tpl_timescale = 1, tpl_media = ''m''\<rparr>" 3 5
        "[\<lparr>seg_id = ''rep7_2'', seg_number = 2, seg_time = 6, seg_init = False,
            seg_duration = 3, seg_range = None, seg_indexRange = None, seg_timescale = 1,
            seg_media = ''m''\<rparr>]"
        normalizeRange_unbounded]
  by (simp add: getSegments_eval normalizeRange_unbounded_def)

lemma rounded_examples:
  "round64 1 = Num 1"
  "round64 2 = Num 2"
  "round64 3 = Num 3"
  "round64 180000 = Num 180000"
  "round64 270000 = Num 270000"
  "js_mul (js_div 0 2) 1 = Num 0"
  "js_mul (js_div 4 2) 1 = Num 2"
  "js_mul (js_div 1 10) 3 = Num (5404319552844596 / 18014398509481984)"
  "js_mul (js_div 7 10) 3 = Num (4728779608739020 / 2251799813685248)"
  "js_mul (js_div 3 10) 1 = Num (5404319552844595 / 18014398509481984)"
  "js_mul (js_div 3 10) 7 = Num (4728779608739021 / 2251799813685248)"
  by code_simp+

text \<open>
  Known binary64 values: \<open>0.1\<close> is \<open>3602879701896397 / 2^55\<close>, and
  \<open>(1001 / 30000) * 90000\<close> is \<open>3003.0000000000005\<close>, one unit in the last place above
  3003.
\<close>

lemma round64_known_values:
  "round64 (1 / 10) = Num (3602879701896397 / 36028797018963968)"
  "js_mul (js_div 1001 30000) 90000 = Num (6603666836422657 / 2199023255552)"
  "(6603666836422657 / 2199023255552 :: rat) = 3003 + 1 / 2199023255552"
  by code_simp+

text \<open>
  Claim C8, as stated, fails. With \<open>index.timescale = 3\<close> and \<open>segmentInfos = {time: 1,
  duration: 7, timescale: 10, count: 0, range: null}\<close> the code stores
  \<open>ts = (1 / 10) * 3 = 0.30000000000000004\<close> and \<open>d = (7 / 10) * 3 = 2.0999999999999996\<close>
  (the values \<open>5404319552844596 / 2^54\<close> and \<open>4728779608739020 / 2^51\<close>). The time and the
  duration multiplied by the ratio \<open>3 / 10\<close> are \<open>0.3\<close> and \<open>2.1\<close>, both as exact products
  and as binary64 products (\<open>5404319552844595 / 2^54\<close> and \<open>4728779608739021 / 2^51\<close>): the
  code divides first and multiplies after, and each step rounds.
\<close>

theorem addSegmentInfos_is_not_ratio_product:
  "addSegmentInfos \<lparr>idx_timescale = 3, idx_timeline = []\<rparr>
       \<lparr>si_time = 1, si_duration = 7, si_timescale = 10, si_count = 0, si_range = None\<rparr> =
     (\<lparr>idx_timescale = 3,
       idx_timeline = [\<lparr>el_ts = Num (5404319552844596 / 18014398509481984),
                        el_d = Num (4728779608739020 / 2251799813685248),
                        el_r = 0, el_range = None\<rparr>]\<rparr>, True) \<and>
   js_mul (js_div 3 10) 1 = Num (5404319552844595 / 18014398509481984) \<and>
   js_mul (js_div 3 10) 7 = Num (4728779608739021 / 2251799813685248) \<and>
   (5404319552844596 / 18014398509481984 :: rat) \<noteq> 5404319552844595 / 18014398509481984 \<and>
   (5404319552844596 / 18014398509481984 :: rat) \<noteq> 1 * (3 / 10) \<and>
   (4728779608739020 / 2251799813685248 :: rat) \<noteq> 4728779608739021 / 2251799813685248 \<and>
   (4728779608739020 / 2251799813685248 :: rat) \<noteq> 7 * (3 / 10)"
  by (simp add: addSegmentInfos_def Let_def rounded_examples)

text \<open>
  Claim C8, amended. For every index with a timeline and every \<open>segmentInfos\<close>,
  \<open>_addSegmentInfos\<close> appends exactly one element to the timeline, leaves the rest of
  the index as it is, and returns \<open>true\<close>. The element has \<open>r = count\<close> and the given
  range. When the two timescales differ, its \<open>ts\<close> and \<open>d\<close> are
  \<open>(time / segmentInfos.timescale) * index.timescale\<close> and
  \<open>(duration / segmentInfos.timescale) * index.timescale\<close>, the division and then the
  multiplication each rounded to binary64; where neither step rounds, these are \<open>time\<close>
  and \<open>duration\<close> multiplied by the ratio \<open>index.timescale / segmentInfos.timescale\<close>.
  When the timescales are equal they are \<open>time\<close> and \<open>duration\<close> unchanged. With
  \<open>index.timescale = 1\<close> and an empty timeline,
  \<open>{time: 0, duration: 4, timescale: 2, count: 0, range: null}\<close> appends
  \<open>{ts: 0, d: 2, r: 0, range: null}\<close>.
\<close>

theorem addSegmentInfos_appends_one_element:
  "addSegmentInfos index segmentInfos =
     (index\<lparr>idx_timeline := idx_timeline index @
        [\<lparr>el_ts = (if si_timescale segmentInfos \<noteq> idx_timescale index
                   then js_mul (js_div (si_time segmentInfos) (si_timescale segmentInfos))
                          (idx_timescale index)
                   else Num (si_time segmentInfos)),
          el_d = (if si_timescale segmentInfos \<noteq> idx_timescale index
                  then js_mul (js_div (si_duration segmentInfos) (si_timescale segmentInfos))
                         (idx_timescale index)
                  else Num (si_duration segmentInfos)),
          el_r = si_count segmentInfos,
          el_range = si_range segmentInfos\<rparr>]\<rparr>, True) \<and>
   (si_timescale segmentInfos \<noteq> 0 \<and>
    round64 (si_time segmentInfos / si_timescale segmentInfos) =
      Num (si_time segmentInfos / si_timescale segmentInfos) \<and>
    round64 (si_time segmentInfos / si_timescale segmentInfos * idx_timescale index) =
      Num (si_time segmentInfos / si_timescale segmentInfos * idx_timescale index) \<longrightarrow>
      js_mul (js_div (si_time segmentInfos) (si_timescale segmentInfos)) (idx_timescale index) =
        Num (si_time segmentInfos * (idx_timescale index / si_timescale segmentInfos))) \<and>
   (si_timescale segmentInfos \<noteq> 0 \<and>
    round64 (si_duration segmentInfos / si_timescale segmentInfos) =
      Num (si_duration segmentInfos / si_timescale segmentInfos) \<and>
    round64 (si_duration segmentInfos / si_timescale segmentInfos * idx_timescale index) =
      Num (si_duration segmentInfos / si_timescale segmentInfos * idx_timescale index) \<longrightarrow>
      js_mul (js_div (si_duration segmentInfos) (si_timescale segmentInfos)) (idx_timescale index) =
        Num (si_duration segmentInfos * (idx_timescale index / si_timescale segmentInfos))) \<and>
   addSegmentInfos \<lparr>idx_timescale = 1, idx_timeline = []\<rparr>
       \<lparr>si_time = 0, si_duration = 4, si_timescale = 2, si_count = 0, si_range = None\<rparr> =
     (\<lparr>idx_timescale = 1,
       idx_timeline = [\<lparr>el_ts = Num 0, el_d = Num 2, el_r = 0, el_range = None\<rparr>]\<rparr>, True)"
proof (intro conjI impI)
  show "addSegmentInfos index segmentInfos =
     (index\<lparr>idx_timeline := idx_timeline index @
        [\<lparr>el_ts = (if si_timescale segmentInfos \<noteq> idx_timescale index
                   then js_mul (js_div (si_time segmentInfos) (si_timescale segmentInfos))
                          (idx_timescale index)
                   else Num (si_time segmentInfos)),
          el_d = (if si_timescale segmentInfos \<noteq> idx_timescale index
                  then js_mul (js_div (si_duration segmentInfos) (si_timescale segmentInfos))
                         (idx_timescale index)
                  else Num (si_duration segmentInfos)),
          el_r = si_count segmentInfos,
          el_range = si_range segmentInfos\<rparr>]\<rparr>, True)"
    by (simp add: addSegmentInfos_def Let_def)
next
  assume "si_timescale segmentInfos \<noteq> 0 \<and>
    round64 (si_time segmentInfos / si_timescale segmentInfos) =
      Num (si_time segmentInfos / si_timescale segmentInfos) \<and>
    round64 (si_time segmentInfos / si_timescale segmentInfos * idx_timescale index) =
      Num (si_time segmentInfos / si_timescale segmentInfos * idx_timescale index)"
  then show "js_mul (js_div (si_time segmentInfos) (si_timescale segmentInfos))
        (idx_timescale index) =
      Num (si_time segmentInfos * (idx_timescale index / si_timescale segmentInfos))"
    by (simp add: js_div_def)
next
  assume "si_timescale segmentInfos \<noteq> 0 \<and>
    round64 (si_duration segmentInfos / si_timescale segmentInfos) =
      Num (si_duration segmentInfos / si_timescale segmentInfos) \<and>
    round64 (si_duration segmentInfos / si_timescale segmentInfos * idx_timescale index) =
      Num (si_duration segmentInfos / si_timescale segmentInfos * idx_timescale index)"
  then show "js_mul (js_div (si_duration segmentInfos) (si_timescale segmentInfos))
        (idx_timescale index) =
      Num (si_duration segmentInfos * (idx_timescale index / si_timescale segmentInfos))"
    by (simp add: js_div_def)
next
  show "addSegmentInfos \<lparr>idx_timescale = 1, idx_timeline = []\<rparr>
       \<lparr>si_time = 0, si_duration = 4, si_timescale = 2, si_count = 0, si_range = None\<rparr> =
     (\<lparr>idx_timescale = 1,
       idx_timeline = [\<lparr>el_ts = Num 0, el_d = Num 2, el_r = 0, el_range = None\<rparr>]\<rparr>, True)"
    by (simp add: addSegmentInfos_def Let_def rounded_examples)
qed

theorem addSegmentInfos_appends_one_element_witness:
  "si_timescale \<lparr>si_time = 2000, si_duration = 3000, si_timescale = 1000, si_count = 1,
       si_range = Some (100, 199)\<rparr> \<noteq> 0 \<and>
   round64 (2000 / 1000) = Num (2000 / 1000) \<and>
   round64 (2000 / 1000 * 90000) = Num (2000 / 1000 * 90000) \<and>
   round64 (3000 / 1000) = Num (3000 / 1000) \<and>
   round64 (3000 / 1000 * 90000) = Num (3000 / 1000 * 90000) \<and>
   addSegmentInfos
      \<lparr>idx_timescale = 90000,
       idx_timeline = [\<lparr>el_ts = Num 0, el_d = Num 180000, el_r = 0, el_range = Some (0, 99)\<rparr>]\<rparr>
      \<lparr>si_time = 2000, si_duration = 3000, si_timescale = 1000, si_count = 1,
       si_range = Some (100, 199)\<rparr> =
     (\<lparr>idx_timescale = 90000,
       idx_timeline = [\<lparr>el_ts = Num 0, el_d = Num 180000, el_r = 0, el_range = Some (0, 99)\<rparr>,
                       \<lparr>el_ts = Num (2000 * (90000 / 1000)), el_d = Num (3000 * (90000 / 1000)),
                        el_r = 1, el_range = Some (100, 199)\<rparr>]\<rparr>, True)"
  using addSegmentInfos_appends_one_element
    [of "\<lparr>idx_timescale = 90000,
       idx_timeline = [\<lparr>el_ts = Num 0, el_d = Num 180000, el_r = 0, el_range = Some (0, 99)\<rparr>]\<rparr>"
      "\<lparr>si_time = 2000, si_duration = 3000, si_timescale = 1000, si_count = 1,
       si_range = Some (100, 199)\<rparr>"]
  by (simp add: rounded_examples)

text \<open>
  Claim C9, as stated, fails: the lookup of a tag with no registered variant does not
  fail. With every feature built in, the lookup of the tag \<open>hls\<close> returns \<open>undefined\<close>,
  an ordinary return value; no error is thrown.
\<close>

theorem lookup_of_unregistered_tag_does_not_fail:
  "map_of (indexes \<lparr>SMOOTH = True, DASH = True\<rparr>) ''hls'' = None \<and>
   getRightIndexHelpers \<lparr>SMOOTH = True, DASH = True\<rparr>
     [''constructor'', ''toString'', ''toLocaleString'', ''valueOf'',
      ''hasOwnProperty'', ''isPrototypeOf'', ''propertyIsEnumerable'', ''__proto__'']
     \<lparr>indexType = ''hls''\<rparr> = Returns Undefined \<and>
   getRightIndexHelpers \<lparr>SMOOTH = True, DASH = True\<rparr>
     [''constructor'', ''toString'', ''toLocaleString'', ''valueOf'',
      ''hasOwnProperty'', ''isPrototypeOf'', ''propertyIsEnumerable'', ''__proto__'']
     \<lparr>indexType = ''hls''\<rparr> \<noteq> Throws NoSuchIndex"
  by (simp add: getRightIndexHelpers_def indexes_def)

text \<open>
  Claim C9, amended. For every index whose \<open>indexType\<close> tag has no registered variant
  and is not the name of a property that every object inherits, the lookup returns
  \<open>undefined\<close>; and no lookup throws an error, whatever the tag.
\<close>

theorem lookup_of_unregistered_tag_returns_undefined:
  "(map_of (indexes f) (indexType index) = None \<and> indexType index \<notin> set inherited \<longrightarrow>
      getRightIndexHelpers f inherited index = Returns Undefined) \<and>
   getRightIndexHelpers f inherited index \<noteq> Throws err"
  by (simp add: getRightIndexHelpers_def)

theorem lookup_of_unregistered_tag_returns_undefined_witness:
  "map_of (indexes \<lparr>SMOOTH = False, DASH = True\<rparr>)
     (indexType \<lparr>indexType = ''smooth''\<rparr>) = None \<and>
   indexType \<lparr>indexType = ''smooth''\<rparr> \<notin> set [''constructor'', ''toString'', ''toLocaleString'', ''valueOf'',
      ''hasOwnProperty'', ''isPrototypeOf'', ''propertyIsEnumerable'', ''__proto__''] \<and>
   getRightIndexHelpers \<lparr>SMOOTH = False, DASH = True\<rparr>
     [''constructor'', ''toString'', ''toLocaleString'', ''valueOf'',
      ''hasOwnProperty'', ''isPrototypeOf'', ''propertyIsEnumerable'', ''__proto__'']
     \<lparr>indexType = ''smooth''\<rparr> = Returns Undefined"
  using lookup_of_unregistered_tag_returns_undefined
    [of "\<lparr>SMOOTH = False, DASH = True\<rparr>" "\<lparr>indexType = ''smooth''\<rparr>"
        "[''constructor'', ''toString'', ''toLocaleString'', ''valueOf'',
      ''hasOwnProperty'', ''isPrototypeOf'', ''propertyIsEnumerable'', ''__proto__'']"]
  by (simp add: indexes_def)


section \<open>Properties of the native text track source buffer\<close>

text \<open>
  Claim C10. For every state of the source buffer and every appended \<open>data\<close> whose
  \<open>end - start\<close> is zero or negative, \<open>_append\<close> returns normally and the source
  buffer is as before: no cue has been added to the text track (the track is not even
  read) and the buffered ranges are unchanged. The call writes one warning to the log.
\<close>

theorem append_of_empty_range_changes_nothing:
  assumes "data_end data = Some timescaledEnd"
    and "timescaledEnd - data_start data \<le> 0"
  shows "append_data p data b = ([''Invalid subtitles appended''], Returns b)"
  using assms by (simp add: append_data_def)

theorem append_of_empty_range_changes_nothing_witness:
  "data_end \<lparr>data_timescale = 10, data_start = 10, data_end = Some 10, data_data = ''hello'',
      data_type = ''vtt'', data_language = ''en''\<rparr> = Some 10 \<and>
   (10 :: rat) - data_start \<lparr>data_timescale = 10, data_start = 10, data_end = Some 10, data_data = ''hello'',
      data_type = ''vtt'', data_language = ''en''\<rparr> \<le> 0 \<and>
   append_data \<lparr>parseTextTrackToCues =
        (\<lambda>type' text language. [\<lparr>startTime = 1, endTime = 2, cueText = text\<rparr>]),
      addCue = (\<lambda>cue cs. cs @ [cue]),
      buffered_insert = (\<lambda>s e ranges. ranges @ [(s, e)]),
      buffered_remove = (\<lambda>from to ranges. ranges)\<rparr>
     \<lparr>data_timescale = 10, data_start = 10, data_end = Some 10, data_data = ''hello'',
      data_type = ''vtt'', data_language = ''en''\<rparr>
     \<lparr>track = Some [], buffered = []\<rparr> = ([''Invalid subtitles appended''], Returns \<lparr>track = Some [], buffered = []\<rparr>) \<and>
   append_data \<lparr>parseTextTrackToCues =
        (\<lambda>type' text language. [\<lparr>startTime = 1, endTime = 2, cueText = text\<rparr>]),
      addCue = (\<lambda>cue cs. cs @ [cue]),
      buffered_insert = (\<lambda>s e ranges. ranges @ [(s, e)]),
      buffered_remove = (\<lambda>from to ranges. ranges)\<rparr>
     \<lparr>data_timescale = 10, data_start = 10, data_end = Some 20, data_data = ''hello'',
      data_type = ''vtt'', data_language = ''en''\<rparr>
     \<lparr>track = Some [], buffered = []\<rparr> =
     ([], Returns \<lparr>track = Some [\<lparr>startTime = 1, endTime = 2, cueText = ''hello''\<rparr>],
                   buffered = [(Num 1, Num 2)]\<rparr>)"
  using append_of_empty_range_changes_nothing
    [of "\<lparr>data_timescale = 10, data_start = 10, data_end = Some 10, data_data = ''hello'',
      data_type = ''vtt'', data_language = ''en''\<rparr>" 10
        "\<lparr>parseTextTrackToCues =
        (\<lambda>type' text language. [\<lparr>startTime = 1, endTime = 2, cueText = text\<rparr>]),
      addCue = (\<lambda>cue cs. cs @ [cue]),
      buffered_insert = (\<lambda>s e ranges. ranges @ [(s, e)]),
      buffered_remove = (\<lambda>from to ranges. ranges)\<rparr>"
        "\<lparr>track = Some [], buffered = []\<rparr>"]
  by (simp add: append_data_def js_div_def rounded_examples)

end
